theory Spec2Isabelle
  imports Complex_Main
begin

section \<open>JavaScript values\<close>

text \<open>
  The values that cross the wire and flow through \<open>OCPPEndDevice.js\<close>: what
  \<open>JSON.parse\<close> produces, plus \<open>undefined\<close> for a missing property or array slot.
  Numbers are integers here (the identifiers, meter readings and intervals of the protocol).
\<close>

datatype json =
    JUndefined
  | JNull
  | JBool bool
  | JNum int
  | JStr string
  | JArr "json list"
  | JObj "(string \<times> json) list"

text \<open>JavaScript truthiness, as used by \<open>a || b\<close>.\<close>

fun truthy :: "json \<Rightarrow> bool" where
  "truthy JUndefined = False"
| "truthy JNull = False"
| "truthy (JBool b) = b"
| "truthy (JNum n) = (n \<noteq> 0)"
| "truthy (JStr s) = (s \<noteq> [])"
| "truthy (JArr xs) = True"
| "truthy (JObj kvs) = True"

definition js_or :: "json \<Rightarrow> json \<Rightarrow> json" where
  \<comment> \<open>\<open>a || b\<close>\<close>
  "js_or a b = (if truthy a then a else b)"

definition js_nullish :: "json \<Rightarrow> json \<Rightarrow> json" where
  \<comment> \<open>\<open>a ?? b\<close>\<close>
  "js_nullish a b = (if a = JUndefined \<or> a = JNull then b else a)"

text \<open>
  Property read \<open>v.k\<close>: a TypeError (\<open>None\<close>) on \<open>null\<close> and \<open>undefined\<close>, the
  member of an object (the last one, should the text repeat a key), and \<open>undefined\<close>
  on every other value for the keys this program reads.
\<close>

fun get_prop :: "json \<Rightarrow> string \<Rightarrow> json option" where
  "get_prop JUndefined k = None"
| "get_prop JNull k = None"
| "get_prop (JObj kvs) k = Some (case map_of (rev kvs) k of None \<Rightarrow> JUndefined | Some v \<Rightarrow> v)"
| "get_prop v k = Some JUndefined"

definition opt_prop :: "json \<Rightarrow> string \<Rightarrow> json" where
  \<comment> \<open>\<open>v?.k\<close>\<close>
  "opt_prop v k = (case get_prop v k of None \<Rightarrow> JUndefined | Some x \<Rightarrow> x)"

definition element :: "json list \<Rightarrow> nat \<Rightarrow> json" where
  \<comment> \<open>array destructuring: a slot past the end is \<open>undefined\<close>\<close>
  "element xs i = (if i < length xs then xs ! i else JUndefined)"

text \<open>\<open>String(n)\<close> for an integer \<open>n\<close> (decimal; below the exponent notation of 1e21).\<close>

function digits :: "int \<Rightarrow> string" where
  "digits n = (if n < 10 then [''0123456789'' ! nat n]
               else digits (n div 10) @ [''0123456789'' ! nat (n mod 10)])"
  by pat_completeness auto
termination
  by (relation "measure nat") auto

declare digits.simps [simp del]

definition string_of_int :: "int \<Rightarrow> string" where
  "string_of_int i = (if i < 0 then CHR ''-'' # digits (- i) else digits i)"

text \<open>
  A template literal is kept as its parts: literal text, and \<open>${v}\<close> for a value whose
  rendering \<open>String(v)\<close> is left unevaluated. \<open>e.message\<close> of an Error is such a text.
\<close>

datatype part = Lit string | Interp json

type_synonym message = "part list"

definition type_error :: "json \<Rightarrow> string \<Rightarrow> message" where
  \<comment> \<open>the TypeError of reading property \<open>k\<close> of \<open>null\<close> or \<open>undefined\<close>\<close>
  "type_error v k = [Lit ''Cannot read properties of '', Interp v, Lit '' (reading '', Lit k, Lit '')'']"


section \<open>Frames, suspended calls and the state\<close>

text \<open>The three frames the program writes with \<open>ws.send\<close>, before \<open>JSON.stringify\<close>.\<close>

datatype frame =
    Call string string json
  | CallResult json json
  | CallError json string message json

text \<open>
  An \<open>async\<close> function that waits on \<open>sendCALL\<close> is suspended at one of its
  \<open>await\<close>s. A continuation frame names that \<open>await\<close> and holds the local variables
  still needed; a list of them is the chain of callers, innermost first. The last frame
  is the handler that started the chain and catches what the chain throws.
\<close>

datatype cont =
    K_sendStatus json
  | K_authorize
  | K_bootSequence_boot
  | K_bootSequence_status
  | K_startTransaction_call json
  | K_startTransaction_status
  | K_stopTransaction_call
  | K_stopTransaction_status json
  | K_remoteStart_preparing json json
  | K_remoteStart_authorize json json
  | K_remoteStart_rejected json
  | K_remoteStart_start json
  | K_remoteStart_catch json
  | K_remoteStop_stop json
  | K_dispatch json
  | K_open
  | K_log

datatype outcome = Resolved json | Rejected message

datatype logline =
    Log_MeterValues int rat
  | Log_TransactionStopped rat

text \<open>
  The module-level variables. \<open>hbTimer = Some hbSec\<close> is an interval timer armed with
  period \<open>hbSec * 1000\<close> ms, \<open>meterTimer\<close> tells whether the metering interval is armed.
  \<open>pending\<close> maps a request id to its action and to the suspended chain that the entry's
  \<open>resolve\<close> and \<open>reject\<close> would resume. \<open>sent\<close> is everything written to the socket,
  oldest first. \<open>uuids\<close> counts the draws of \<open>uuidv4()\<close>. \<open>closeCalls\<close> counts calls of
  \<open>ws.close()\<close>, \<open>resetTimers\<close> and \<open>reconnectTimers\<close> the armed one-shot timers of
  \<open>Reset\<close> and of the close handler. \<open>logged\<close> keeps the two log lines that carry the
  session energy. \<open>ws.send\<close> is taken to accept every frame it is given.
\<close>

record state =
  connected :: bool
  bootAccepted :: bool
  hbTimer :: "json option"
  meterTimer :: bool
  transactionActive :: bool
  transactionId :: json
  currentMeterWh :: int
  meterStartWh :: int
  lastIdTag :: json
  pending :: "string \<rightharpoonup> (string \<times> cont list)"
  sent :: "frame list"
  uuids :: nat
  closeCalls :: nat
  resetTimers :: nat
  reconnectTimers :: nat
  logged :: "logline list"

definition CONNECTOR_ID :: int where "CONNECTOR_ID = 1"
definition DEFAULT_HB_SEC :: int where "DEFAULT_HB_SEC = 60"

definition init :: state where
  "init = \<lparr> connected = False, bootAccepted = False, hbTimer = None, meterTimer = False,
            transactionActive = False, transactionId = JNull, currentMeterWh = 10000,
            meterStartWh = 0, lastIdTag = JNull, pending = Map.empty, sent = [],
            uuids = 0, closeCalls = 0, resetTimers = 0, reconnectTimers = 0, logged = [] \<rparr>"

text \<open>
  \<open>uuidv4()\<close> returns a random identifier; successive draws are taken to differ, and the
  \<open>n\<close>-th draw is written \<open>uuidv4 n\<close>. The wall clock is not part of the model: every
  \<open>timestamp\<close> field holds the same placeholder.
\<close>

definition uuidv4 :: "nat \<Rightarrow> string" where
  "uuidv4 n = ''uuid-'' @ digits (int n)"

definition nowRFC3339 :: json where
  "nowRFC3339 = JStr ''now''"


section \<open>Utility functions\<close>

definition clearTimer :: "json option \<Rightarrow> json option" where
  "clearTimer t = None"

definition sendCALL :: "string \<Rightarrow> json \<Rightarrow> cont list \<Rightarrow> state \<Rightarrow> state" where
  "sendCALL action payload ks s =
     (let uid = uuidv4 (uuids s) in
      s\<lparr> sent := sent s @ [Call uid action payload],
         pending := (pending s)(uid \<mapsto> (action, ks)),
         uuids := Suc (uuids s) \<rparr>)"

definition sendCALLRESULT :: "json \<Rightarrow> json \<Rightarrow> state \<Rightarrow> state" where
  "sendCALLRESULT uid payload s = s\<lparr> sent := sent s @ [CallResult uid payload] \<rparr>"

definition sendCALLERROR :: "json \<Rightarrow> string \<Rightarrow> message \<Rightarrow> json \<Rightarrow> state \<Rightarrow> state" where
  "sendCALLERROR uid code description details s =
     s\<lparr> sent := sent s @ [CallError uid code description details] \<rparr>"

definition timeout_message :: "string \<Rightarrow> string \<Rightarrow> message" where
  "timeout_message action uid =
     [Lit ''Timeout waiting for '', Lit action, Lit '' ('', Lit uid, Lit '')'']"


section \<open>Charge point behaviours\<close>

definition sendStatus :: "json \<Rightarrow> cont list \<Rightarrow> state \<Rightarrow> state" where
  \<comment> \<open>every caller leaves \<open>errorCode\<close> at its default\<close>
  "sendStatus status ks s =
     sendCALL ''StatusNotification''
       (JObj [(''connectorId'', JNum CONNECTOR_ID), (''status'', status),
              (''errorCode'', JStr ''NoError''), (''timestamp'', nowRFC3339)])
       (K_sendStatus status # ks) s"

definition authorize :: "json \<Rightarrow> cont list \<Rightarrow> state \<Rightarrow> state" where
  "authorize idTag ks s = sendCALL ''Authorize'' (JObj [(''idTag'', idTag)]) (K_authorize # ks) s"

definition stopMeterLoop :: "state \<Rightarrow> state" where
  "stopMeterLoop s = (if meterTimer s then s\<lparr> meterTimer := False \<rparr> else s)"

definition startMeterLoop :: "state \<Rightarrow> state" where
  "startMeterLoop s = (stopMeterLoop s)\<lparr> meterTimer := True \<rparr>"

definition startTransaction :: "json \<Rightarrow> cont list \<Rightarrow> state \<Rightarrow> state" where
  "startTransaction idTag ks s =
     (let s1 = s\<lparr> meterStartWh := currentMeterWh s \<rparr> in
      sendCALL ''StartTransaction''
        (JObj [(''connectorId'', JNum CONNECTOR_ID), (''idTag'', idTag),
               (''meterStart'', JNum (meterStartWh s1)), (''timestamp'', nowRFC3339)])
        (K_startTransaction_call idTag # ks) s1)"

definition energyKWh :: "state \<Rightarrow> rat" where
  "energyKWh s = of_int (currentMeterWh s - meterStartWh s) / 1000"

definition remoteStart_catch :: "json \<Rightarrow> message \<Rightarrow> cont list \<Rightarrow> state \<Rightarrow> state" where
  \<comment> \<open>the \<open>catch (e)\<close> block of the RemoteStartTransaction case\<close>
  "remoteStart_catch uid e ks s =
     sendStatus (JStr ''Available'') (K_remoteStart_catch uid # ks)
       (sendCALLERROR uid ''GenericError'' e (JObj []) s)"

text \<open>
  \<open>settle ks out s\<close> resumes the suspended chain \<open>ks\<close> when the promise it waits on is
  resolved or rejected: each frame runs the rest of its function up to the next
  \<open>await\<close> of a \<open>sendCALL\<close>, or returns or throws to the frame below it.
\<close>

fun settle :: "cont list \<Rightarrow> outcome \<Rightarrow> state \<Rightarrow> state" where
  "settle [] out s = s"
| "settle (K_sendStatus status # ks) (Resolved v) s = settle ks (Resolved JUndefined) s"
| "settle (K_sendStatus status # ks) (Rejected e) s = settle ks (Rejected e) s"
| "settle (K_authorize # ks) (Resolved res) s = settle ks (Resolved res) s"
| "settle (K_authorize # ks) (Rejected e) s = settle ks (Rejected e) s"
| "settle (K_bootSequence_boot # ks) (Resolved res) s =
     (case get_prop res ''status'' of
        None \<Rightarrow> settle ks (Rejected (type_error res ''status'')) s
      | Some st \<Rightarrow>
          if st \<noteq> JStr ''Accepted''
          then settle ks (Rejected [Lit ''Boot not accepted: '', Interp st]) s
          else
            (let s1 = s\<lparr> bootAccepted := True \<rparr>;
                 hbSec = js_or (opt_prop res ''interval'') (JNum DEFAULT_HB_SEC);
                 s2 = s1\<lparr> hbTimer := clearTimer (hbTimer s1) \<rparr>;
                 s3 = s2\<lparr> hbTimer := Some hbSec \<rparr>
             in sendStatus (JStr ''Available'') (K_bootSequence_status # ks) s3))"
| "settle (K_bootSequence_boot # ks) (Rejected e) s = settle ks (Rejected e) s"
| "settle (K_bootSequence_status # ks) (Resolved v) s = settle ks (Resolved JUndefined) s"
| "settle (K_bootSequence_status # ks) (Rejected e) s = settle ks (Rejected e) s"
| "settle (K_startTransaction_call idTag # ks) (Resolved res) s =
     (case get_prop res ''transactionId'' of
        None \<Rightarrow> settle ks (Rejected (type_error res ''transactionId'')) s
      | Some t \<Rightarrow>
          sendStatus (JStr ''Charging'') (K_startTransaction_status # ks)
            (s\<lparr> transactionId := js_nullish t (JNum 1),
                transactionActive := True,
                lastIdTag := idTag \<rparr>))"
| "settle (K_startTransaction_call idTag # ks) (Rejected e) s = settle ks (Rejected e) s"
| "settle (K_startTransaction_status # ks) (Resolved v) s =
     settle ks (Resolved JUndefined) (startMeterLoop s)"
| "settle (K_startTransaction_status # ks) (Rejected e) s = settle ks (Rejected e) s"
| "settle (K_stopTransaction_call # ks) (Resolved res) s =
     sendStatus (JStr ''Available'') (K_stopTransaction_status res # ks)
       (s\<lparr> logged := logged s @ [Log_TransactionStopped (energyKWh s)],
           transactionActive := False,
           transactionId := JNull,
           lastIdTag := JNull \<rparr>)"
| "settle (K_stopTransaction_call # ks) (Rejected e) s = settle ks (Rejected e) s"
| "settle (K_stopTransaction_status res # ks) (Resolved v) s = settle ks (Resolved res) s"
| "settle (K_stopTransaction_status res # ks) (Rejected e) s = settle ks (Rejected e) s"
| "settle (K_remoteStart_preparing uid idTag # ks) (Resolved v) s =
     authorize idTag (K_remoteStart_authorize uid idTag # ks) s"
| "settle (K_remoteStart_preparing uid idTag # ks) (Rejected e) s = remoteStart_catch uid e ks s"
| "settle (K_remoteStart_authorize uid idTag # ks) (Resolved auth) s =
     (let status = js_or (opt_prop (opt_prop auth ''idTagInfo'') ''status'') (JStr ''Accepted'') in
      if status \<noteq> JStr ''Accepted''
      then sendStatus (JStr ''Available'') (K_remoteStart_rejected uid # ks)
             (sendCALLRESULT uid (JObj [(''status'', JStr ''Rejected'')]) s)
      else startTransaction idTag (K_remoteStart_start uid # ks) s)"
| "settle (K_remoteStart_authorize uid idTag # ks) (Rejected e) s = remoteStart_catch uid e ks s"
| "settle (K_remoteStart_rejected uid # ks) (Resolved v) s = settle ks (Resolved JUndefined) s"
| "settle (K_remoteStart_rejected uid # ks) (Rejected e) s = remoteStart_catch uid e ks s"
| "settle (K_remoteStart_start uid # ks) (Resolved v) s =
     settle ks (Resolved JUndefined)
       (sendCALLRESULT uid (JObj [(''status'', JStr ''Accepted'')]) s)"
| "settle (K_remoteStart_start uid # ks) (Rejected e) s = remoteStart_catch uid e ks s"
| "settle (K_remoteStart_catch uid # ks) (Resolved v) s = settle ks (Resolved JUndefined) s"
| "settle (K_remoteStart_catch uid # ks) (Rejected e) s = settle ks (Rejected e) s"
| "settle (K_remoteStop_stop uid # ks) (Resolved v) s =
     settle ks (Resolved JUndefined)
       (sendCALLRESULT uid (JObj [(''status'', JStr ''Accepted'')]) s)"
| "settle (K_remoteStop_stop uid # ks) (Rejected e) s =
     settle ks (Resolved JUndefined) (sendCALLERROR uid ''GenericError'' e (JObj []) s)"
| "settle (K_dispatch uid # ks) (Resolved v) s = settle ks (Resolved JUndefined) s"
| "settle (K_dispatch uid # ks) (Rejected e) s =
     settle ks (Resolved JUndefined) (sendCALLERROR uid ''GenericError'' e (JObj []) s)"
| "settle (K_open # ks) (Resolved v) s = settle ks (Resolved JUndefined) s"
| "settle (K_open # ks) (Rejected e) s =
     settle ks (Resolved JUndefined) (s\<lparr> closeCalls := Suc (closeCalls s) \<rparr>)"
| "settle (K_log # ks) (Resolved v) s = settle ks (Resolved v) s"
| "settle (K_log # ks) (Rejected e) s = settle ks (Resolved JUndefined) s"

definition bootSequence :: "cont list \<Rightarrow> state \<Rightarrow> state" where
  "bootSequence ks s =
     sendCALL ''BootNotification''
       (JObj [(''chargePointVendor'', JStr ''MEV''), (''chargePointModel'', JStr ''MEV-AC7kW''),
              (''chargePointSerialNumber'', JStr ''SN-0001''), (''firmwareVersion'', JStr ''1.0.0'')])
       (K_bootSequence_boot # ks) s"

definition stopTransaction :: "json \<Rightarrow> cont list \<Rightarrow> state \<Rightarrow> state" where
  "stopTransaction reason ks s =
     (if \<not> transactionActive s then settle ks (Resolved JUndefined) s
      else
        (let s1 = stopMeterLoop s in
         sendCALL ''StopTransaction''
           (JObj [(''transactionId'', transactionId s1), (''meterStop'', JNum (currentMeterWh s1)),
                  (''timestamp'', nowRFC3339), (''reason'', reason)])
           (K_stopTransaction_call # ks) s1))"


text \<open>One tick of the metering interval: \<open>r\<close> is the draw of \<open>Math.random()\<close>.\<close>

definition meter_increment :: "rat \<Rightarrow> int" where
  "meter_increment r = \<lfloor>120 + r * 80\<rfloor>"

definition meter_tick :: "rat \<Rightarrow> state \<Rightarrow> state" where
  "meter_tick r s =
     (if \<not> transactionActive s then s
      else
        (let s1 = s\<lparr> currentMeterWh := currentMeterWh s + meter_increment r \<rparr>;
             meterValue =
               JArr [JObj [(''timestamp'', nowRFC3339),
                           (''sampledValue'',
                            JArr [JObj [(''value'', JStr (string_of_int (currentMeterWh s1))),
                                        (''measurand'', JStr ''Energy.Active.Import.Register''),
                                        (''unit'', JStr ''Wh'')]])]];
             s2 = s1\<lparr> logged := logged s1 @ [Log_MeterValues (currentMeterWh s1) (energyKWh s1)] \<rparr>
         in sendCALL ''MeterValues''
              (JObj [(''connectorId'', JNum CONNECTOR_ID), (''transactionId'', transactionId s2),
                     (''meterValue'', meterValue)])
              [K_log] s2))"

definition heartbeat_tick :: "state \<Rightarrow> state" where
  "heartbeat_tick s =
     (if connected s \<and> bootAccepted s then sendCALL ''Heartbeat'' (JObj []) [K_log] s else s)"


section \<open>Incoming calls\<close>

definition handleIncoming :: "json \<Rightarrow> json \<Rightarrow> json \<Rightarrow> cont list \<Rightarrow> state \<Rightarrow> state" where
  "handleIncoming uid action payload ks s =
     (if action = JStr ''RemoteStartTransaction'' then
        (let idTag = js_or (opt_prop payload ''idTag'') (JStr ''DEMO-TAG'') in
         sendStatus (JStr ''Preparing'') (K_remoteStart_preparing uid idTag # ks) s)
      else if action = JStr ''RemoteStopTransaction'' then
        (if transactionActive s
         then stopTransaction (JStr ''Remote'') (K_remoteStop_stop uid # ks) s
         else settle ks (Resolved JUndefined)
                (sendCALLRESULT uid (JObj [(''status'', JStr ''Rejected'')]) s))
      else if action = JStr ''Reset'' then
        settle ks (Resolved JUndefined)
          ((sendCALLRESULT uid (JObj [(''status'', JStr ''Accepted'')]) s)
             \<lparr> resetTimers := Suc (resetTimers s) \<rparr>)
      else if action = JStr ''ChangeAvailability'' then
        settle ks (Resolved JUndefined)
          (sendCALLRESULT uid (JObj [(''status'', JStr ''Accepted'')]) s)
      else if action = JStr ''UnlockConnector'' then
        settle ks (Resolved JUndefined)
          (sendCALLRESULT uid (JObj [(''status'', JStr ''Unlocked'')]) s)
      else
        settle ks (Resolved JUndefined)
          (sendCALLERROR uid ''NotImplemented''
             [Lit ''Action '', Interp action, Lit '' not implemented''] (JObj []) s))"


section \<open>The connection's handlers\<close>

definition lookup_pending :: "state \<Rightarrow> json \<Rightarrow> (string \<times> string \<times> cont list) option" where
  \<comment> \<open>\<open>pending.get(uid)\<close>: the keys are strings, so only a string finds an entry\<close>
  "lookup_pending s uid =
     (case uid of
        JStr u \<Rightarrow> (case pending s u of None \<Rightarrow> None | Some (action, ks) \<Rightarrow> Some (u, action, ks))
      | _ \<Rightarrow> None)"

definition on_open :: "state \<Rightarrow> state" where
  "on_open s = bootSequence [K_open] (s\<lparr> connected := True \<rparr>)"

text \<open>\<open>on_message (Some msg)\<close> is a text that parses to \<open>msg\<close>, \<open>on_message None\<close> one that does not.\<close>

definition on_message :: "json option \<Rightarrow> state \<Rightarrow> state" where
  "on_message data s =
     (case data of
        None \<Rightarrow> s
      | Some (JArr msg) \<Rightarrow>
          if length msg < 3 then s
          else
            (let type = element msg 0; uid = element msg 1 in
             if type = JNum 3 then
               (case lookup_pending s uid of
                  None \<Rightarrow> s
                | Some (u, action, ks) \<Rightarrow>
                    settle ks (Resolved (element msg 2)) (s\<lparr> pending := (pending s)(u := None) \<rparr>))
             else if type = JNum 4 then
               (case lookup_pending s uid of
                  None \<Rightarrow> s
                | Some (u, action, ks) \<Rightarrow>
                    settle ks
                      (Rejected [Lit action, Lit '' failed: '', Interp (element msg 2), Lit '' '',
                                 Interp (element msg 3)])
                      (s\<lparr> pending := (pending s)(u := None) \<rparr>))
             else if type = JNum 2 then
               handleIncoming uid (element msg 2) (element msg 3) [K_dispatch uid] s
             else s)
      | Some other \<Rightarrow> s)"

definition on_close :: "state \<Rightarrow> state" where
  "on_close s =
     (let s1 = s\<lparr> connected := False \<rparr>;
          s2 = s1\<lparr> bootAccepted := False \<rparr>;
          s3 = s2\<lparr> hbTimer := clearTimer (hbTimer s2) \<rparr>;
          s4 = stopMeterLoop s3
      in s4\<lparr> reconnectTimers := Suc (reconnectTimers s4) \<rparr>)"

text \<open>The 20 second timer that \<open>sendCALL\<close> arms for request \<open>uid\<close>.\<close>

definition on_timeout :: "string \<Rightarrow> state \<Rightarrow> state" where
  "on_timeout uid s =
     (case pending s uid of
        None \<Rightarrow> s
      | Some (action, ks) \<Rightarrow>
          settle ks (Rejected (timeout_message action uid)) (s\<lparr> pending := (pending s)(uid := None) \<rparr>))"

text \<open>
  What the event loop can run next. A tick of an interval runs only while that interval
  is armed; the timer of \<open>Reset\<close> closes the socket. Time itself is not modelled: the
  events come in any order. The SIGINT handler, which ends the process, is left out.
\<close>

datatype event =
    Open
  | Message "json option"
  | Close
  | Timeout string
  | HeartbeatTick
  | MeterTick rat
  | ResetTimer

fun step :: "state \<Rightarrow> event \<Rightarrow> state" where
  "step s Open = on_open s"
| "step s (Message data) = on_message data s"
| "step s Close = on_close s"
| "step s (Timeout uid) = on_timeout uid s"
| "step s HeartbeatTick = (if hbTimer s = None then s else heartbeat_tick s)"
| "step s (MeterTick r) = (if meterTimer s then meter_tick r s else s)"
| "step s ResetTimer =
     (if resetTimers s = 0 then s
      else s\<lparr> resetTimers := resetTimers s - 1, closeCalls := Suc (closeCalls s) \<rparr>)"

definition run :: "event list \<Rightarrow> state \<Rightarrow> state" where
  "run evs s = foldl step s evs"

text \<open>The frames of the server, as parsed texts.\<close>

definition call_msg :: "string \<Rightarrow> string \<Rightarrow> json \<Rightarrow> event" where
  "call_msg uid action payload = Message (Some (JArr [JNum 2, JStr uid, JStr action, payload]))"

definition result_msg :: "string \<Rightarrow> json \<Rightarrow> event" where
  "result_msg uid payload = Message (Some (JArr [JNum 3, JStr uid, payload]))"

definition error_msg :: "string \<Rightarrow> string \<Rightarrow> string \<Rightarrow> event" where
  "error_msg uid code desc = Message (Some (JArr [JNum 4, JStr uid, JStr code, JStr desc, JObj []]))"

definition replies :: "json \<Rightarrow> state \<Rightarrow> frame list" where
  \<comment> \<open>the CallResult and CallError frames sent for the inbound Call \<open>uid\<close>\<close>
  "replies uid s =
     filter (\<lambda>f. case f of Call u a p \<Rightarrow> False | CallResult u p \<Rightarrow> u = uid
                  | CallError u c d x \<Rightarrow> u = uid) (sent s)"

definition calls :: "string \<Rightarrow> state \<Rightarrow> frame list" where
  \<comment> \<open>the Calls of one action that were sent\<close>
  "calls action s =
     filter (\<lambda>f. case f of Call u a p \<Rightarrow> a = action | CallResult u p \<Rightarrow> False
                  | CallError u c d x \<Rightarrow> False) (sent s)"


section \<open>The interactive variant's status report\<close>

text \<open>
  The second program of the file keeps the connector's status in \<open>currentStatus\<close>.
  Its \<open>sendStatus\<close> is modelled up to its \<open>await\<close>, over the two effects it has there, in
  program order: the assignment and the frame written by \<open>sendCALL\<close> (whose request id
  is \<open>uid\<close>).
\<close>

datatype effect = Assigned json | Wrote frame

record interactive =
  currentStatus :: json
  effects :: "effect list"

definition sendCALL_interactive :: "string \<Rightarrow> string \<Rightarrow> json \<Rightarrow> interactive \<Rightarrow> interactive" where
  "sendCALL_interactive uid action payload s =
     s\<lparr> effects := effects s @ [Wrote (Call uid action payload)] \<rparr>"

definition sendStatus_interactive :: "string \<Rightarrow> json \<Rightarrow> interactive \<Rightarrow> interactive" where
  "sendStatus_interactive uid status s =
     (let s1 = s\<lparr> currentStatus := status, effects := effects s @ [Assigned status] \<rparr> in
      sendCALL_interactive uid ''StatusNotification''
        (JObj [(''connectorId'', JNum CONNECTOR_ID), (''status'', status),
               (''errorCode'', JStr ''NoError''), (''timestamp'', nowRFC3339)]) s1)"


section \<open>Scenarios\<close>

text \<open>
  Runs of the event loop used below. The server's replies quote the request ids it
  received (\<open>uuid-0\<close>, \<open>uuid-1\<close>, ... in the order of the draws).
\<close>

definition boot_accepted :: "event list" where
  "boot_accepted =
     [Open,
      result_msg ''uuid-0'' (JObj [(''status'', JStr ''Accepted''), (''interval'', JNum 30)]),
      result_msg ''uuid-1'' (JObj [])]"

text \<open>A remote start up to the reply to StartTransaction; the status report is still unanswered.\<close>

definition remote_start :: "event list" where
  "remote_start =
     [call_msg ''r1'' ''RemoteStartTransaction'' (JObj [(''idTag'', JStr ''X'')]),
      result_msg ''uuid-2'' (JObj []),
      result_msg ''uuid-3'' (JObj [(''idTagInfo'', JObj [(''status'', JStr ''Accepted'')])]),
      result_msg ''uuid-4'' (JObj [(''transactionId'', JNum 7)])]"

definition charging :: state where
  "charging = run (boot_accepted @ remote_start @ [result_msg ''uuid-5'' (JObj [])]) init"

definition actions_sent :: "state \<Rightarrow> string list" where
  "actions_sent s =
     map (\<lambda>f. case f of Call u a p \<Rightarrow> a | CallResult u p \<Rightarrow> ''CallResult''
                | CallError u c d x \<Rightarrow> ''CallError'') (sent s)"

definition blocked_then_failure :: "event list" where
  "blocked_then_failure =
     [call_msg ''r1'' ''RemoteStartTransaction'' (JObj [(''idTag'', JStr ''X'')]),
      result_msg ''uuid-2'' (JObj []),
      result_msg ''uuid-3'' (JObj [(''idTagInfo'', JObj [(''status'', JStr ''Blocked'')])]),
      error_msg ''uuid-4'' ''InternalError'' ''busy'']"

definition second_remote_start :: "event list" where
  "second_remote_start =
     [MeterTick (3 / 8),
      call_msg ''r2'' ''RemoteStartTransaction'' (JObj [(''idTag'', JStr ''Y'')]),
      result_msg ''uuid-7'' (JObj []),
      result_msg ''uuid-8'' (JObj [(''idTagInfo'', JObj [(''status'', JStr ''Accepted'')])]),
      result_msg ''uuid-9'' (JObj [(''transactionId'', JNum 8)]),
      result_msg ''uuid-10'' (JObj [])]"

text \<open>
  RemoteStopTransaction arrives while \<open>startTransaction\<close> waits for the reply to its
  status report; that reply comes next.
\<close>

definition stop_during_start :: "event list" where
  "stop_during_start =
     boot_accepted @ remote_start @
     [call_msg ''r2'' ''RemoteStopTransaction'' (JObj []),
      result_msg ''uuid-5'' (JObj [])]"

definition three_ticks_then_stop :: "event list" where
  "three_ticks_then_stop =
     [MeterTick (3 / 8), MeterTick (3 / 8), MeterTick (3 / 8),
      call_msg ''r2'' ''RemoteStopTransaction'' (JObj []),
      result_msg ''uuid-9'' (JObj [])]"


section \<open>Properties\<close>

lemmas send_defs = sendCALL_def sendCALLRESULT_def sendCALLERROR_def sendStatus_def authorize_def
  startTransaction_def remoteStart_catch_def stopMeterLoop_def startMeterLoop_def Let_def

text \<open>Resuming a chain registers at most one new request, under the next identifier drawn.\<close>

lemma settle_pending:
  "pending (settle ks out s) u = Some e \<Longrightarrow> u \<noteq> uuidv4 (uuids s) \<Longrightarrow> pending s u = Some e"
  by (induction ks out s rule: settle.induct)
     (auto simp: send_defs split: option.splits if_splits)

lemma settle_pending_none:
  "pending s u = None \<Longrightarrow> u \<noteq> uuidv4 (uuids s) \<Longrightarrow> pending (settle ks out s) u = None"
proof (cases "pending (settle ks out s) u")
  case None
  then show ?thesis .
next
  case (Some e)
  assume n: "pending s u = None" and f: "u \<noteq> uuidv4 (uuids s)"
  from settle_pending [OF Some f] n show ?thesis by simp
qed

lemma on_message_result:
  "pending s uid = Some (action, ks) \<Longrightarrow>
   on_message (Some (JArr [JNum 3, JStr uid, payload])) s
     = settle ks (Resolved payload) (s\<lparr> pending := (pending s)(uid := None) \<rparr>)"
  by (simp add: on_message_def lookup_pending_def element_def)

lemma on_message_error:
  "pending s uid = Some (action, ks) \<Longrightarrow>
   on_message (Some (JArr [JNum 4, JStr uid, code, desc, details])) s
     = settle ks (Rejected [Lit action, Lit '' failed: '', Interp code, Lit '' '', Interp desc])
         (s\<lparr> pending := (pending s)(uid := None) \<rparr>)"
  by (simp add: on_message_def lookup_pending_def element_def)

lemmas msg_defs = on_message_def lookup_pending_def element_def handleIncoming_def
  stopTransaction_def on_timeout_def timeout_message_def

lemma sendCALL_pending:
  "pending (sendCALL action payload ks t) (uuidv4 (uuids t)) = Some (action, ks)"
  by (simp add: sendCALL_def Let_def)

lemma sendStatus_resolved:
  "on_message (Some (JArr [JNum 3, JStr (uuidv4 (uuids t)), v])) (sendStatus st ks t)
     = settle ks (Resolved JUndefined)
         ((sendStatus st ks t)\<lparr> pending := (pending (sendStatus st ks t))(uuidv4 (uuids t) := None) \<rparr>)"
  unfolding sendStatus_def
  by (simp add: on_message_result [OF sendCALL_pending])

text \<open>The boot handshake, step by step.\<close>

lemma on_open_pending:
  "pending (on_open t) (uuidv4 (uuids t)) = Some (''BootNotification'', [K_bootSequence_boot, K_open])"
  by (simp add: on_open_def bootSequence_def sendCALL_def Let_def)

lemma boot_accepted_step:
  assumes "get_prop res ''status'' = Some (JStr ''Accepted'')"
  shows "on_message (Some (JArr [JNum 3, JStr (uuidv4 (uuids t)), res])) (on_open t)
     = sendStatus (JStr ''Available'') [K_bootSequence_status, K_open]
         ((on_open t)\<lparr> pending := (pending (on_open t))(uuidv4 (uuids t) := None),
                         bootAccepted := True,
                         hbTimer := Some (js_or (opt_prop res ''interval'') (JNum DEFAULT_HB_SEC)) \<rparr>)"
  using assms by (simp add: on_message_result [OF on_open_pending] clearTimer_def)

lemma reconnect_fields:
  assumes "get_prop res ''status'' = Some (JStr ''Accepted'')"
  shows "(let s' = run [Open, result_msg (uuidv4 (uuids t)) res,
                        result_msg (uuidv4 (Suc (uuids t))) res'] t
          in connected s' \<and> bootAccepted s' \<and> meterTimer s' = meterTimer t \<and>
             transactionActive s' = transactionActive t \<and>
             transactionId s' = transactionId t)"
proof -
  let ?t1 = "(on_open t)\<lparr> pending := (pending (on_open t))(uuidv4 (uuids t) := None),
                         bootAccepted := True,
                         hbTimer := Some (js_or (opt_prop res ''interval'') (JNum DEFAULT_HB_SEC)) \<rparr>"
  have u: "uuids ?t1 = Suc (uuids t)"
    by (simp add: on_open_def bootSequence_def sendCALL_def Let_def)
  have r: "run [Open, result_msg (uuidv4 (uuids t)) res, result_msg (uuidv4 (Suc (uuids t))) res'] t
     = on_message (Some (JArr [JNum 3, JStr (uuidv4 (uuids ?t1)), res']))
         (sendStatus (JStr ''Available'') [K_bootSequence_status, K_open] ?t1)"
    unfolding u by (simp add: run_def result_msg_def boot_accepted_step [OF assms])
  show ?thesis
    unfolding r sendStatus_resolved
    by (simp add: Let_def on_open_def bootSequence_def sendStatus_def sendCALL_def)
qed

text \<open>Only the last step of \<open>startTransaction\<close> arms the metering interval.\<close>

lemma settle_meterTimer:
  "K_startTransaction_status \<notin> set ks \<Longrightarrow> meterTimer (settle ks out s) = meterTimer s"
  by (induction ks out s rule: settle.induct)
     (auto simp: send_defs split: option.splits if_splits)

lemma step_arms_meterTimer:
  assumes a: "meterTimer (step s e)" and n: "\<not> meterTimer s"
  shows "\<exists>u a ks. pending s u = Some (a, ks) \<and> K_startTransaction_status \<in> set ks"
proof (cases e)
  case Open
  with a n show ?thesis
    by (simp add: on_open_def bootSequence_def send_defs)
next
  case (Message data)
  show ?thesis
  proof (rule ccontr)
    assume c: "\<not> ?thesis"
    then have k: "pending s u = Some (a, ks) \<Longrightarrow> K_startTransaction_status \<notin> set ks" for u a ks
      by blast
    have "meterTimer (on_message data s) \<Longrightarrow> meterTimer s"
      by (auto simp: msg_defs send_defs settle_meterTimer k
               split: option.splits json.splits if_splits dest: k)
    with a n Message show False by simp
  qed
next
  case Close
  with a n show ?thesis by (simp add: on_close_def send_defs)
next
  case (Timeout uid)
  show ?thesis
  proof (cases "pending s uid")
    case None
    with a n Timeout show ?thesis by (simp add: on_timeout_def)
  next
    case (Some p)
    obtain action ks where p: "p = (action, ks)" by (cases p)
    have "K_startTransaction_status \<in> set ks"
    proof (rule ccontr)
      assume "K_startTransaction_status \<notin> set ks"
      then have "meterTimer (on_timeout uid s) = meterTimer s"
        using Some p by (simp add: on_timeout_def settle_meterTimer)
      with a n Timeout show False by simp
    qed
    with Some p show ?thesis by blast
  qed
next
  case HeartbeatTick
  with a n show ?thesis by (simp add: heartbeat_tick_def send_defs split: if_splits)
next
  case (MeterTick r)
  with a n show ?thesis by (simp add: meter_tick_def split: if_splits)
next
  case ResetTimer
  with a n show ?thesis by (simp split: if_splits)
qed

lemma meter_tick_adds:
  "transactionActive s \<Longrightarrow>
   currentMeterWh (meter_tick r s) = currentMeterWh s + meter_increment r \<and>
   meterStartWh (meter_tick r s) = meterStartWh s"
  by (simp add: meter_tick_def send_defs)

lemma boot_hbTimer:
  "get_prop res ''status'' = Some (JStr ''Accepted'') \<Longrightarrow>
   hbTimer (run [Open, result_msg (uuidv4 (uuids s)) res] s)
     = Some (js_or (opt_prop res ''interval'') (JNum 60))"
  by (simp add: run_def on_open_def bootSequence_def result_msg_def on_message_def
        lookup_pending_def element_def send_defs DEFAULT_HB_SEC_def clearTimer_def)



subsection \<open>Request timeout\<close>

text \<open>
  Claim C7. When the 20 second timer of a request fires while its id is still in
  \<open>pending\<close>, the entry is deleted and the chain waiting on the request is resumed with
  a rejection whose message is \<open>Timeout waiting for ${action} (${uid})\<close>, built from the
  request's own action and id. When the id is no longer in \<open>pending\<close> the timer does
  nothing. A request settles once: after its timeout, its CallResult or its CallError
  (the next identifier drawn being a different one) the entry is gone and the timer
  leaves the state as it is.
\<close>

theorem timeout_rejects_pending:
  "(pending s uid = Some (action, ks) \<longrightarrow>
      on_timeout uid s =
        settle ks (Rejected [Lit ''Timeout waiting for '', Lit action, Lit '' ('', Lit uid, Lit '')''])
          (s\<lparr> pending := (pending s)(uid := None) \<rparr>)) \<and>
   (pending s uid = None \<longrightarrow> on_timeout uid s = s) \<and>
   (pending s uid = Some (action, ks) \<and> uid \<noteq> uuidv4 (uuids s) \<longrightarrow>
      pending (on_timeout uid s) uid = None \<and>
      on_timeout uid (on_timeout uid s) = on_timeout uid s \<and>
      on_timeout uid (on_message (Some (JArr [JNum 3, JStr uid, payload])) s)
        = on_message (Some (JArr [JNum 3, JStr uid, payload])) s \<and>
      on_timeout uid (on_message (Some (JArr [JNum 4, JStr uid, code, desc, details])) s)
        = on_message (Some (JArr [JNum 4, JStr uid, code, desc, details])) s)"
proof (intro conjI impI)
  assume p: "pending s uid = Some (action, ks)"
  then show "on_timeout uid s =
        settle ks (Rejected [Lit ''Timeout waiting for '', Lit action, Lit '' ('', Lit uid, Lit '')''])
          (s\<lparr> pending := (pending s)(uid := None) \<rparr>)"
    by (simp add: on_timeout_def timeout_message_def)
next
  assume "pending s uid = None"
  then show "on_timeout uid s = s" by (simp add: on_timeout_def)
next
  assume a: "pending s uid = Some (action, ks) \<and> uid \<noteq> uuidv4 (uuids s)"
  let ?s0 = "s\<lparr> pending := (pending s)(uid := None) \<rparr>"
  have gone: "pending (settle ks out ?s0) uid = None" for out
  proof (rule settle_pending_none)
    show "pending ?s0 uid = None" by simp
    show "uid \<noteq> uuidv4 (uuids ?s0)" using a by simp
  qed
  have idle: "pending t uid = None \<Longrightarrow> on_timeout uid t = t" for t
    by (simp add: on_timeout_def)
  have t: "on_timeout uid s = settle ks (Rejected (timeout_message action uid)) ?s0"
    using a by (simp add: on_timeout_def)
  show "pending (on_timeout uid s) uid = None"
    unfolding t by (rule gone)
  then show "on_timeout uid (on_timeout uid s) = on_timeout uid s"
    by (rule idle)
  show "on_timeout uid (on_message (Some (JArr [JNum 3, JStr uid, payload])) s)
        = on_message (Some (JArr [JNum 3, JStr uid, payload])) s"
    using a by (simp only: on_message_result idle gone)
  show "on_timeout uid (on_message (Some (JArr [JNum 4, JStr uid, code, desc, details])) s)
        = on_message (Some (JArr [JNum 4, JStr uid, code, desc, details])) s"
    using a by (simp only: on_message_error idle gone)
qed


theorem timeout_rejects_pending_witness:
  "pending (run [call_msg ''r1'' ''RemoteStartTransaction'' (JObj [])] init) ''uuid-0''
     = Some (''StatusNotification'',
             [K_sendStatus (JStr ''Preparing''),
              K_remoteStart_preparing (JStr ''r1'') (JStr ''DEMO-TAG''), K_dispatch (JStr ''r1'')]) \<and>
   ''uuid-0'' \<noteq> uuidv4 (uuids (run [call_msg ''r1'' ''RemoteStartTransaction'' (JObj [])] init)) \<and>
   pending (on_timeout ''uuid-0'' (run [call_msg ''r1'' ''RemoteStartTransaction'' (JObj [])] init))
     ''uuid-0'' = None \<and>
   replies (JStr ''r1'')
     (on_timeout ''uuid-0'' (run [call_msg ''r1'' ''RemoteStartTransaction'' (JObj [])] init))
     = [CallError (JStr ''r1'') ''GenericError''
          [Lit ''Timeout waiting for '', Lit ''StatusNotification'', Lit '' ('', Lit ''uuid-0'', Lit '')'']
          (JObj [])] \<and>
   pending init ''uuid-0'' = None \<and> on_timeout ''uuid-0'' init = init"
proof -
  let ?s = "run [call_msg ''r1'' ''RemoteStartTransaction'' (JObj [])] init"
  let ?ks = "[K_sendStatus (JStr ''Preparing''),
              K_remoteStart_preparing (JStr ''r1'') (JStr ''DEMO-TAG''), K_dispatch (JStr ''r1'')]"
  have p: "pending ?s ''uuid-0'' = Some (''StatusNotification'', ?ks)" by code_simp
  have f: "''uuid-0'' \<noteq> uuidv4 (uuids ?s)" by code_simp
  have n: "pending init ''uuid-0'' = None" by code_simp
  have r: "replies (JStr ''r1'') (on_timeout ''uuid-0'' ?s)
     = [CallError (JStr ''r1'') ''GenericError''
          [Lit ''Timeout waiting for '', Lit ''StatusNotification'', Lit '' ('', Lit ''uuid-0'', Lit '')'']
          (JObj [])]" by code_simp
  from timeout_rejects_pending [of ?s "''uuid-0''" "''StatusNotification''" ?ks] p f
  have "pending (on_timeout ''uuid-0'' ?s) ''uuid-0'' = None" by blast
  moreover from timeout_rejects_pending [of init "''uuid-0''"] n
  have "on_timeout ''uuid-0'' init = init" by blast
  ultimately show ?thesis using p f n r by blast
qed


subsection \<open>Stopping without a transaction\<close>

text \<open>
  Claim C8. \<open>stopTransaction\<close> called while no transaction is active returns
  \<open>undefined\<close> to its caller without throwing and in the state it was called in: no
  frame is written, no request is registered and no variable changes.
\<close>

theorem stopTransaction_inactive_noop:
  "\<not> transactionActive s \<Longrightarrow>
     stopTransaction reason ks s = settle ks (Resolved JUndefined) s \<and>
     stopTransaction reason [] s = s \<and>
     stopTransaction reason [K_log] s = s"
  by (simp add: stopTransaction_def)

theorem stopTransaction_inactive_noop_witness:
  "\<not> transactionActive init \<and> stopTransaction (JStr ''Local'') [K_log] init = init
     \<and> sent (stopTransaction (JStr ''Local'') [K_log] init) = []"
  using stopTransaction_inactive_noop [of init "JStr ''Local''" "[K_log]"]
  by (simp add: init_def)


subsection \<open>Replies to an inbound Call\<close>

text \<open>
  Claim C1. Every inbound Call should get exactly one reply frame. The
  RemoteStartTransaction handler does not keep to it: when the Authorize reply carries
  a status other than \<open>Accepted\<close>, the handler sends \<open>CallResult {status: Rejected}\<close>
  and then awaits \<open>sendStatus('Available')\<close> inside the same \<open>try\<close>; when that request
  fails, the \<open>catch\<close> block sends a \<open>CallError\<close> for the same id, a second reply. When
  the status report of the \<open>catch\<close> block fails as well, the dispatcher's \<open>.catch\<close> sends a
  third one.
\<close>

theorem remoteStart_sends_two_replies:
  "replies (JStr ''r1'') (run (boot_accepted @ blocked_then_failure) init)
     = [CallResult (JStr ''r1'') (JObj [(''status'', JStr ''Rejected'')]),
        CallError (JStr ''r1'') ''GenericError''
          [Lit ''StatusNotification'', Lit '' failed: '', Interp (JStr ''InternalError''), Lit '' '',
           Interp (JStr ''busy'')] (JObj [])] \<and>
   length (replies (JStr ''r1'')
             (run (boot_accepted @ blocked_then_failure @ [Timeout ''uuid-5'']) init)) = 3"
  by code_simp


subsection \<open>One transaction at a time\<close>

text \<open>
  Claim C2. \<open>startTransaction\<close> should not run while a transaction is active. The
  RemoteStartTransaction handler never looks at \<open>transactionActive\<close>: with transaction
  7 active and no StopTransaction sent, a second RemoteStartTransaction leads to a second
  StartTransaction Call, and its reply overwrites \<open>transactionId\<close>, \<open>meterStartWh\<close> and
  \<open>lastIdTag\<close> of the live transaction.
\<close>

theorem remoteStart_while_active_overwrites:
  "transactionActive charging \<and> transactionId charging = JNum 7 \<and>
   meterStartWh charging = 10000 \<and> lastIdTag charging = JStr ''X'' \<and>
   calls ''StartTransaction'' (run second_remote_start charging)
     = [Call ''uuid-4'' ''StartTransaction''
          (JObj [(''connectorId'', JNum 1), (''idTag'', JStr ''X''), (''meterStart'', JNum 10000),
                 (''timestamp'', JStr ''now'')]),
        Call ''uuid-9'' ''StartTransaction''
          (JObj [(''connectorId'', JNum 1), (''idTag'', JStr ''Y''), (''meterStart'', JNum 10150),
                 (''timestamp'', JStr ''now'')])] \<and>
   calls ''StopTransaction'' (run second_remote_start charging) = [] \<and>
   transactionActive (run second_remote_start charging) \<and>
   transactionId (run second_remote_start charging) = JNum 8 \<and>
   meterStartWh (run second_remote_start charging) = 10150 \<and>
   lastIdTag (run second_remote_start charging) = JStr ''Y'' \<and>
   replies (JStr ''r2'') (run second_remote_start charging)
     = [CallResult (JStr ''r2'') (JObj [(''status'', JStr ''Accepted'')])]"
  by code_simp


subsection \<open>Heartbeat interval\<close>

text \<open>
  Claim C3, as amended. After an accepted BootNotification reply the heartbeat
  interval is \<open>res.interval || DEFAULT_HB_SEC\<close>: the reply's \<open>interval\<close> whenever that
  value is truthy (so every non-zero number, positive or negative), and the default 60
  when it is absent, \<open>null\<close> or zero.
\<close>

theorem heartbeat_interval_of_boot_reply:
  "get_prop res ''status'' = Some (JStr ''Accepted'') \<Longrightarrow>
   (truthy (opt_prop res ''interval'') \<longrightarrow>
      hbTimer (run [Open, result_msg (uuidv4 (uuids s)) res] s) = Some (opt_prop res ''interval'')) \<and>
   (\<not> truthy (opt_prop res ''interval'') \<longrightarrow>
      hbTimer (run [Open, result_msg (uuidv4 (uuids s)) res] s) = Some (JNum DEFAULT_HB_SEC)) \<and>
   (opt_prop res ''interval'' = JNum n \<and> n \<noteq> 0 \<longrightarrow>
      hbTimer (run [Open, result_msg (uuidv4 (uuids s)) res] s) = Some (JNum n)) \<and>
   (opt_prop res ''interval'' \<in> {JUndefined, JNull, JNum 0} \<longrightarrow>
      hbTimer (run [Open, result_msg (uuidv4 (uuids s)) res] s) = Some (JNum 60))"
  using boot_hbTimer [of res s] by (auto simp: js_or_def DEFAULT_HB_SEC_def)

theorem heartbeat_interval_of_boot_reply_witness:
  "get_prop (JObj [(''status'', JStr ''Accepted''), (''interval'', JNum 30)]) ''status''
     = Some (JStr ''Accepted'') \<and>
   opt_prop (JObj [(''status'', JStr ''Accepted''), (''interval'', JNum 30)]) ''interval'' = JNum 30 \<and>
   truthy (JNum 30) \<and>
   hbTimer (run [Open, result_msg (uuidv4 0)
                         (JObj [(''status'', JStr ''Accepted''), (''interval'', JNum 30)])] init)
     = Some (JNum 30) \<and>
   get_prop (JObj [(''status'', JStr ''Accepted'')]) ''status'' = Some (JStr ''Accepted'') \<and>
   opt_prop (JObj [(''status'', JStr ''Accepted'')]) ''interval'' = JUndefined \<and>
   \<not> truthy JUndefined \<and>
   hbTimer (run [Open, result_msg (uuidv4 0) (JObj [(''status'', JStr ''Accepted'')])] init)
     = Some (JNum 60)"
proof -
  let ?res = "JObj [(''status'', JStr ''Accepted''), (''interval'', JNum 30)]"
  let ?bare = "JObj [(''status'', JStr ''Accepted'')]"
  have a: "get_prop ?res ''status'' = Some (JStr ''Accepted'')" by simp
  have i: "opt_prop ?res ''interval'' = JNum 30" by (simp add: opt_prop_def)
  have b: "get_prop ?bare ''status'' = Some (JStr ''Accepted'')" by simp
  have j: "opt_prop ?bare ''interval'' = JUndefined" by (simp add: opt_prop_def)
  have u: "uuids init = 0" by (simp add: init_def)
  from heartbeat_interval_of_boot_reply [of ?res init 30] a i u
  have 1: "hbTimer (run [Open, result_msg (uuidv4 0) ?res] init) = Some (JNum 30)" by simp
  from heartbeat_interval_of_boot_reply [of ?bare init 0] b j u
  have 2: "hbTimer (run [Open, result_msg (uuidv4 0) ?bare] init) = Some (JNum 60)"
    by (simp add: DEFAULT_HB_SEC_def)
  from a i b j 1 2 show ?thesis by simp
qed

text \<open>
  Claim C3 as written also asks for the default on a negative interval; the reply
  \<open>{status: Accepted, interval: -5}\<close> arms the timer with \<open>-5\<close>.
\<close>

theorem heartbeat_interval_negative_counterexample:
  "hbTimer (run [Open, result_msg (uuidv4 0) (JObj [(''status'', JStr ''Accepted''), (''interval'', JNum (- 5))])] init)
     = Some (JNum (- 5)) \<and>
   hbTimer (run [Open, result_msg (uuidv4 0) (JObj [(''status'', JStr ''Accepted''), (''interval'', JNum (- 5))])] init)
     \<noteq> Some (JNum DEFAULT_HB_SEC)"
  by code_simp


subsection \<open>Order of the status report and the local status\<close>

text \<open>
  Claim C4, as amended. In the interactive variant \<open>sendStatus\<close> assigns the new status
  to \<open>currentStatus\<close> first and writes the StatusNotification Call next, both before its
  \<open>await\<close>. (The headless variant keeps no connector status at all.)
\<close>

theorem sendStatus_interactive_assigns_then_sends:
  "effects (sendStatus_interactive uid status s)
     = effects s @
       [Assigned status,
        Wrote (Call uid ''StatusNotification''
                 (JObj [(''connectorId'', JNum 1), (''status'', status),
                        (''errorCode'', JStr ''NoError''), (''timestamp'', nowRFC3339)]))] \<and>
   currentStatus (sendStatus_interactive uid status s) = status"
  by (simp add: sendStatus_interactive_def sendCALL_interactive_def CONNECTOR_ID_def)

text \<open>Claim C4 as written puts the Call first; the assignment comes first.\<close>

theorem sendStatus_interactive_counterexample:
  "effects (sendStatus_interactive ''u1'' (JStr ''Preparing'')
              \<lparr> currentStatus = JStr ''Available'', effects = [] \<rparr>)
     = [Assigned (JStr ''Preparing''),
        Wrote (Call ''u1'' ''StatusNotification''
                 (JObj [(''connectorId'', JNum 1), (''status'', JStr ''Preparing''),
                        (''errorCode'', JStr ''NoError''), (''timestamp'', JStr ''now'')]))] \<and>
   effects (sendStatus_interactive ''u1'' (JStr ''Preparing'')
              \<lparr> currentStatus = JStr ''Available'', effects = [] \<rparr>)
     \<noteq> [Wrote (Call ''u1'' ''StatusNotification''
                 (JObj [(''connectorId'', JNum 1), (''status'', JStr ''Preparing''),
                        (''errorCode'', JStr ''NoError''), (''timestamp'', JStr ''now'')])),
         Assigned (JStr ''Preparing'')]"
  by code_simp


subsection \<open>RemoteStopTransaction\<close>

text \<open>
  Claim C5, as amended. Without an active transaction the handler only replies
  \<open>CallResult {status: Rejected}\<close>. With one, it cancels the metering interval and sends
  StopTransaction; when that Call is answered it clears the transaction and reports
  \<open>Available\<close>, and when the report is answered too it replies
  \<open>CallResult {status: Accepted}\<close>. When StopTransaction is answered by a CallError or
  times out (the transaction then stays active), or when the status report times out,
  the handler's \<open>catch\<close> replies \<open>CallError GenericError\<close> with the failure's message.
\<close>

theorem remoteStop_replies:
  "(\<not> transactionActive s \<longrightarrow>
      on_message (Some (JArr [JNum 2, uid, JStr ''RemoteStopTransaction'', payload])) s
        = sendCALLRESULT uid (JObj [(''status'', JStr ''Rejected'')]) s) \<and>
   (transactionActive s \<longrightarrow>
      (let u0 = uuidv4 (uuids s);
           u1 = uuidv4 (Suc (uuids s));
           s1 = on_message (Some (JArr [JNum 2, uid, JStr ''RemoteStopTransaction'', payload])) s;
           s2 = on_message (Some (JArr [JNum 3, JStr u0, res])) s1;
           s3 = on_message (Some (JArr [JNum 3, JStr u1, res'])) s2
       in sent s1 = sent s @
            [Call u0 ''StopTransaction''
               (JObj [(''transactionId'', transactionId s), (''meterStop'', JNum (currentMeterWh s)),
                      (''timestamp'', nowRFC3339), (''reason'', JStr ''Remote'')])] \<and>
          \<not> meterTimer s1 \<and>
          sent s2 = sent s1 @
            [Call u1 ''StatusNotification''
               (JObj [(''connectorId'', JNum 1), (''status'', JStr ''Available''),
                      (''errorCode'', JStr ''NoError''), (''timestamp'', nowRFC3339)])] \<and>
          \<not> transactionActive s2 \<and>
          sent s3 = sent s2 @ [CallResult uid (JObj [(''status'', JStr ''Accepted'')])] \<and>
          sent (on_message (Some (JArr [JNum 4, JStr u0, code, desc, details])) s1) = sent s1 @
            [CallError uid ''GenericError''
               [Lit ''StopTransaction'', Lit '' failed: '', Interp code, Lit '' '', Interp desc]
               (JObj [])] \<and>
          sent (on_timeout u0 s1) = sent s1 @
            [CallError uid ''GenericError''
               [Lit ''Timeout waiting for '', Lit ''StopTransaction'', Lit '' ('', Lit u0, Lit '')'']
               (JObj [])] \<and>
          transactionActive (on_timeout u0 s1) \<and>
          sent (on_timeout u1 s2) = sent s2 @
            [CallError uid ''GenericError''
               [Lit ''Timeout waiting for '', Lit ''StatusNotification'', Lit '' ('', Lit u1, Lit '')'']
               (JObj [])]))"
  by (simp add: msg_defs send_defs CONNECTOR_ID_def)

theorem remoteStop_replies_witness:
  "\<not> transactionActive init \<and>
   sent (on_message (Some (JArr [JNum 2, JStr ''r2'', JStr ''RemoteStopTransaction'', JObj []])) init)
     = [CallResult (JStr ''r2'') (JObj [(''status'', JStr ''Rejected'')])] \<and>
   transactionActive charging \<and>
   sent (on_message (Some (JArr [JNum 2, JStr ''r2'', JStr ''RemoteStopTransaction'', JObj []])) charging)
     = sent charging @
         [Call (uuidv4 (uuids charging)) ''StopTransaction''
            (JObj [(''transactionId'', transactionId charging),
                   (''meterStop'', JNum (currentMeterWh charging)),
                   (''timestamp'', nowRFC3339), (''reason'', JStr ''Remote'')])] \<and>
   replies (JStr ''r2'')
     (run [call_msg ''r2'' ''RemoteStopTransaction'' (JObj []), result_msg ''uuid-6'' (JObj []),
           result_msg ''uuid-7'' (JObj [])] charging)
     = [CallResult (JStr ''r2'') (JObj [(''status'', JStr ''Accepted'')])]"
proof -
  let ?m = "Some (JArr [JNum 2, JStr ''r2'', JStr ''RemoteStopTransaction'', JObj []])"
  have i: "\<not> transactionActive init" by (simp add: init_def)
  have c: "transactionActive charging" by code_simp
  from remoteStop_replies [of init "JStr ''r2''" "JObj []"] i
  have "on_message ?m init = sendCALLRESULT (JStr ''r2'') (JObj [(''status'', JStr ''Rejected'')]) init"
    by blast
  then have 1: "sent (on_message ?m init) = [CallResult (JStr ''r2'') (JObj [(''status'', JStr ''Rejected'')])]"
    by (simp add: sendCALLRESULT_def init_def)
  from remoteStop_replies [of charging "JStr ''r2''" "JObj []"] c
  have 2: "sent (on_message ?m charging)
     = sent charging @
         [Call (uuidv4 (uuids charging)) ''StopTransaction''
            (JObj [(''transactionId'', transactionId charging),
                   (''meterStop'', JNum (currentMeterWh charging)),
                   (''timestamp'', nowRFC3339), (''reason'', JStr ''Remote'')])]"
    by (simp add: Let_def)
  have 3: "replies (JStr ''r2'')
     (run [call_msg ''r2'' ''RemoteStopTransaction'' (JObj []), result_msg ''uuid-6'' (JObj []),
           result_msg ''uuid-7'' (JObj [])] charging)
     = [CallResult (JStr ''r2'') (JObj [(''status'', JStr ''Accepted'')])]"
    by code_simp
  from i c 1 2 3 show ?thesis by blast
qed

text \<open>Claim C5 as written excludes a CallError reply; a failed StopTransaction gives one.\<close>

theorem remoteStop_error_counterexample:
  "transactionActive charging \<and>
   replies (JStr ''r2'')
     (run [call_msg ''r2'' ''RemoteStopTransaction'' (JObj []),
           error_msg ''uuid-6'' ''InternalError'' ''busy''] charging)
     = [CallError (JStr ''r2'') ''GenericError''
          [Lit ''StopTransaction'', Lit '' failed: '', Interp (JStr ''InternalError''), Lit '' '',
           Interp (JStr ''busy'')] (JObj [])]"
  by code_simp


subsection \<open>Metering and StopTransaction\<close>

text \<open>
  Claim C6. No MeterValues Call should follow the start of StopTransaction. When
  RemoteStopTransaction is handled while \<open>startTransaction\<close> still waits for the reply
  to its \<open>Charging\<close> report, \<open>stopTransaction\<close> finds no interval to cancel and sends
  StopTransaction for transaction 7; the reply to the report then lets
  \<open>startTransaction\<close> arm the interval, and the next tick (the transaction is still
  marked active) sends MeterValues for transaction 7, after the StopTransaction Call. The
  same happens when that StopTransaction has timed out before the tick.
\<close>

theorem meterValues_after_stop_initiated:
  "actions_sent (run (stop_during_start @ [MeterTick (3 / 8)]) init)
     = [''BootNotification'', ''StatusNotification'', ''StatusNotification'', ''Authorize'',
        ''StartTransaction'', ''StatusNotification'', ''StopTransaction'', ''CallResult'',
        ''MeterValues''] \<and>
   calls ''StopTransaction'' (run (stop_during_start @ [MeterTick (3 / 8)]) init)
     = [Call ''uuid-6'' ''StopTransaction''
          (JObj [(''transactionId'', JNum 7), (''meterStop'', JNum 10000),
                 (''timestamp'', JStr ''now''), (''reason'', JStr ''Remote'')])] \<and>
   map (\<lambda>f. case f of Call u a p \<Rightarrow> opt_prop p ''transactionId'' | _ \<Rightarrow> JUndefined)
       (calls ''MeterValues'' (run (stop_during_start @ [MeterTick (3 / 8)]) init)) = [JNum 7] \<and>
   meterTimer (run stop_during_start init) \<and>
   pending (run stop_during_start init) ''uuid-6''
     = Some (''StopTransaction'',
             [K_stopTransaction_call, K_remoteStop_stop (JStr ''r2''), K_dispatch (JStr ''r2'')]) \<and>
   actions_sent (run (stop_during_start @ [Timeout ''uuid-6'', MeterTick (3 / 8)]) init)
     = [''BootNotification'', ''StatusNotification'', ''StatusNotification'', ''Authorize'',
        ''StartTransaction'', ''StatusNotification'', ''StopTransaction'', ''CallResult'',
        ''CallError'', ''MeterValues'']"
  by code_simp


subsection \<open>Session energy\<close>

text \<open>
  Claim C9. A metering tick of an active transaction adds its increment to
  \<open>currentMeterWh\<close> and leaves \<open>meterStartWh\<close> alone; when StopTransaction is answered
  the energy logged is \<open>(currentMeterWh - meterStartWh) / 1000\<close>. From a start at
  10000 Wh, three ticks whose draw gives 150 Wh each and a remote stop: the
  StopTransaction Call carries \<open>meterStop = 10450\<close> and the energy is 0.450 kWh.
\<close>

theorem session_energy:
  "(transactionActive s \<longrightarrow>
      currentMeterWh (meter_tick r s) = currentMeterWh s + meter_increment r \<and>
      meterStartWh (meter_tick r s) = meterStartWh s) \<and>
   logged (settle (K_stopTransaction_call # ks) (Resolved res) s)
     = logged s @ [Log_TransactionStopped (of_int (currentMeterWh s - meterStartWh s) / 1000)] \<and>
   meter_increment (3 / 8) = 150 \<and>
   calls ''StartTransaction'' (run three_ticks_then_stop charging)
     = [Call ''uuid-4'' ''StartTransaction''
          (JObj [(''connectorId'', JNum 1), (''idTag'', JStr ''X''), (''meterStart'', JNum 10000),
                 (''timestamp'', JStr ''now'')])] \<and>
   calls ''StopTransaction'' (run three_ticks_then_stop charging)
     = [Call ''uuid-9'' ''StopTransaction''
          (JObj [(''transactionId'', JNum 7), (''meterStop'', JNum 10450),
                 (''timestamp'', JStr ''now''), (''reason'', JStr ''Remote'')])] \<and>
   logged (run three_ticks_then_stop charging)
     = [Log_MeterValues 10150 (150 / 1000), Log_MeterValues 10300 (300 / 1000),
        Log_MeterValues 10450 (450 / 1000), Log_TransactionStopped (450 / 1000)]"
proof (intro conjI)
  show "transactionActive s \<longrightarrow>
      currentMeterWh (meter_tick r s) = currentMeterWh s + meter_increment r \<and>
      meterStartWh (meter_tick r s) = meterStartWh s"
    by (simp add: meter_tick_adds)
  show "logged (settle (K_stopTransaction_call # ks) (Resolved res) s)
     = logged s @ [Log_TransactionStopped (of_int (currentMeterWh s - meterStartWh s) / 1000)]"
    by (simp add: send_defs energyKWh_def)
  show "meter_increment (3 / 8) = 150" by code_simp
  show "calls ''StartTransaction'' (run three_ticks_then_stop charging)
     = [Call ''uuid-4'' ''StartTransaction''
          (JObj [(''connectorId'', JNum 1), (''idTag'', JStr ''X''), (''meterStart'', JNum 10000),
                 (''timestamp'', JStr ''now'')])]" by code_simp
  show "calls ''StopTransaction'' (run three_ticks_then_stop charging)
     = [Call ''uuid-9'' ''StopTransaction''
          (JObj [(''transactionId'', JNum 7), (''meterStop'', JNum 10450),
                 (''timestamp'', JStr ''now''), (''reason'', JStr ''Remote'')])]" by code_simp
  show "logged (run three_ticks_then_stop charging)
     = [Log_MeterValues 10150 (150 / 1000), Log_MeterValues 10300 (300 / 1000),
        Log_MeterValues 10450 (450 / 1000), Log_TransactionStopped (450 / 1000)]" by code_simp
qed

theorem session_energy_witness:
  "transactionActive charging \<and>
   currentMeterWh (meter_tick (3 / 8) charging) = 10150 \<and>
   meterStartWh (meter_tick (3 / 8) charging) = 10000"
proof -
  have a: "transactionActive charging" by code_simp
  have c: "currentMeterWh charging = 10000" by code_simp
  have m: "meterStartWh charging = 10000" by code_simp
  have i: "meter_increment (3 / 8) = 150" by code_simp
  from session_energy [of charging "3 / 8"] a
  have "currentMeterWh (meter_tick (3 / 8) charging) = currentMeterWh charging + meter_increment (3 / 8)
        \<and> meterStartWh (meter_tick (3 / 8) charging) = meterStartWh charging" by blast
  with a c m i show ?thesis by simp
qed


subsection \<open>Disconnect\<close>

text \<open>
  Claim C10. The close handler clears \<open>connected\<close> and \<open>bootAccepted\<close> and cancels the
  heartbeat and metering intervals; \<open>transactionActive\<close>, \<open>transactionId\<close>,
  \<open>meterStartWh\<close>, \<open>currentMeterWh\<close> and \<open>lastIdTag\<close> stay as they were. After the
  reconnect and an accepted boot handshake the transaction is as before and the
  metering interval is still not armed, so a tick does nothing. An event arms the
  interval only by resuming a chain suspended in the last \<open>await\<close> of
  \<open>startTransaction\<close>.
\<close>

theorem close_keeps_transaction:
  "\<not> connected (on_close s) \<and> \<not> bootAccepted (on_close s) \<and>
   hbTimer (on_close s) = None \<and> \<not> meterTimer (on_close s) \<and>
   transactionActive (on_close s) = transactionActive s \<and>
   transactionId (on_close s) = transactionId s \<and>
   meterStartWh (on_close s) = meterStartWh s \<and>
   currentMeterWh (on_close s) = currentMeterWh s \<and>
   lastIdTag (on_close s) = lastIdTag s \<and>
   (get_prop res ''status'' = Some (JStr ''Accepted'') \<longrightarrow>
      (let s' = run [Close, Open, result_msg (uuidv4 (uuids s)) res,
                     result_msg (uuidv4 (Suc (uuids s))) res'] s
       in connected s' \<and> bootAccepted s' \<and> \<not> meterTimer s' \<and>
          transactionActive s' = transactionActive s \<and>
          transactionId s' = transactionId s \<and>
          step s' (MeterTick r) = s')) \<and>
   (meterTimer (step s e) \<and> \<not> meterTimer s \<longrightarrow>
      (\<exists>u a ks. pending s u = Some (a, ks) \<and> K_startTransaction_status \<in> set ks))"
proof -
  have fields: "\<not> connected (on_close s) \<and> \<not> bootAccepted (on_close s) \<and>
   hbTimer (on_close s) = None \<and> \<not> meterTimer (on_close s) \<and>
   transactionActive (on_close s) = transactionActive s \<and>
   transactionId (on_close s) = transactionId s \<and>
   meterStartWh (on_close s) = meterStartWh s \<and>
   currentMeterWh (on_close s) = currentMeterWh s \<and>
   lastIdTag (on_close s) = lastIdTag s"
    by (simp add: on_close_def clearTimer_def stopMeterLoop_def Let_def)
  have reconnect: "get_prop res ''status'' = Some (JStr ''Accepted'') \<longrightarrow>
      (let s' = run [Close, Open, result_msg (uuidv4 (uuids s)) res,
                     result_msg (uuidv4 (Suc (uuids s))) res'] s
       in connected s' \<and> bootAccepted s' \<and> \<not> meterTimer s' \<and>
          transactionActive s' = transactionActive s \<and>
          transactionId s' = transactionId s \<and>
          step s' (MeterTick r) = s')"
  proof
    assume a: "get_prop res ''status'' = Some (JStr ''Accepted'')"
    have u: "uuids (on_close s) = uuids s"
      by (simp add: on_close_def clearTimer_def stopMeterLoop_def Let_def)
    have c: "run [Close, Open, result_msg (uuidv4 (uuids s)) res,
                  result_msg (uuidv4 (Suc (uuids s))) res'] s
           = run [Open, result_msg (uuidv4 (uuids (on_close s))) res,
                  result_msg (uuidv4 (Suc (uuids (on_close s)))) res'] (on_close s)"
      unfolding u by (simp add: run_def)
    from reconnect_fields [OF a, of "on_close s" res'] fields
    show "let s' = run [Close, Open, result_msg (uuidv4 (uuids s)) res,
                     result_msg (uuidv4 (Suc (uuids s))) res'] s
       in connected s' \<and> bootAccepted s' \<and> \<not> meterTimer s' \<and>
          transactionActive s' = transactionActive s \<and>
          transactionId s' = transactionId s \<and>
          step s' (MeterTick r) = s'"
      unfolding c by (simp add: Let_def)
  qed
  have arm: "meterTimer (step s e) \<and> \<not> meterTimer s \<longrightarrow>
      (\<exists>u a ks. pending s u = Some (a, ks) \<and> K_startTransaction_status \<in> set ks)"
    using step_arms_meterTimer [of s e] by blast
  from fields reconnect arm show ?thesis by blast
qed

theorem close_keeps_transaction_witness:
  "get_prop (JObj [(''status'', JStr ''Accepted'')]) ''status'' = Some (JStr ''Accepted'') \<and>
   transactionActive charging \<and> meterTimer charging \<and>
   \<not> meterTimer (on_close charging) \<and> transactionActive (on_close charging) \<and>
   transactionActive
     (run [Close, Open, result_msg (uuidv4 (uuids charging)) (JObj [(''status'', JStr ''Accepted'')]),
           result_msg (uuidv4 (Suc (uuids charging))) (JObj [])] charging) \<and>
   \<not> meterTimer
     (run [Close, Open, result_msg (uuidv4 (uuids charging)) (JObj [(''status'', JStr ''Accepted'')]),
           result_msg (uuidv4 (Suc (uuids charging))) (JObj [])] charging) \<and>
   meterTimer (step (run (boot_accepted @ remote_start) init) (result_msg ''uuid-5'' (JObj []))) \<and>
   \<not> meterTimer (run (boot_accepted @ remote_start) init) \<and>
   (\<exists>u a ks. pending (run (boot_accepted @ remote_start) init) u = Some (a, ks) \<and>
              K_startTransaction_status \<in> set ks)"
proof -
  let ?res = "JObj [(''status'', JStr ''Accepted'')]"
  let ?s0 = "run (boot_accepted @ remote_start) init"
  let ?e = "result_msg ''uuid-5'' (JObj [])"
  have a: "get_prop ?res ''status'' = Some (JStr ''Accepted'')" by simp
  have t: "transactionActive charging" by code_simp
  have m: "meterTimer charging" by code_simp
  have h: "meterTimer (step ?s0 ?e) \<and> \<not> meterTimer ?s0" by code_simp
  note c = close_keeps_transaction [of charging ?res "JObj []" "3 / 8" ?e]
  note d = close_keeps_transaction [of ?s0 ?res "JObj []" "3 / 8" ?e]
  from c t have 1: "\<not> meterTimer (on_close charging) \<and> transactionActive (on_close charging)"
    by simp
  from c a t have 2: "transactionActive
     (run [Close, Open, result_msg (uuidv4 (uuids charging)) ?res,
           result_msg (uuidv4 (Suc (uuids charging))) (JObj [])] charging) \<and>
   \<not> meterTimer
     (run [Close, Open, result_msg (uuidv4 (uuids charging)) ?res,
           result_msg (uuidv4 (Suc (uuids charging))) (JObj [])] charging)"
    by (simp add: Let_def)
  from d h have 3: "\<exists>u a ks. pending ?s0 u = Some (a, ks) \<and> K_startTransaction_status \<in> set ks"
    by blast
  from a t m h 1 2 3 show ?thesis by blast
qed

end
